theory Spec2Isabelle
  imports Main "HOL-Library.AList"
begin

section \<open>Data model of server.py\<close>

text \<open>
  The server keeps two module-level dictionaries:
  \<^verbatim>\<open>rooms = {}        # {roomId: {userId: sid}}\<close> and
  \<^verbatim>\<open>user_rooms = {}   # {sid: {userId, roomId}}\<close>.
  A Python dict keeps its keys in insertion order, \<^verbatim>\<open>d[k] = v\<close> overwrites in place or
  appends, and \<^verbatim>\<open>list(d.keys())\<close> reads that order, so each dict is an association
  list: \<open>map_of\<close> is the lookup, \<open>AList.update\<close> the assignment and \<open>AList.delete\<close>
  the \<^verbatim>\<open>del\<close>.

  Connection identifiers (\<^verbatim>\<open>request.sid\<close>), user and room identifiers are strings.
  The data of an incoming event is a dict of string fields; \<^verbatim>\<open>data.get(k)\<close> is
  \<open>map_of data k\<close>, with \<open>None\<close> for a missing field. Event data whose userId or
  roomId is a JSON value of another type is outside this model; an array or an object
  there is unhashable, and Python raises TypeError where the handler uses it as a key.
\<close>

type_synonym sid = string
type_synonym data = "(string \<times> string) list"

record user_info =
  userId :: string
  roomId :: string

text \<open>
  Besides the two dictionaries, flask_socketio keeps its own table of room subscriptions,
  which the handlers change with \<^verbatim>\<open>join_room\<close> and \<^verbatim>\<open>leave_room\<close> and which
  \<^verbatim>\<open>emit(..., room=r, skip_sid=c)\<close> reads. It is the third field of the state: the list
  of (room, sid) subscriptions.
\<close>

record state =
  rooms :: "(string \<times> (string \<times> sid) list) list"
  user_rooms :: "(sid \<times> user_info) list"
  sio_rooms :: "(string \<times> sid) list"

definition init :: state where
  "init = \<lparr>rooms = [], user_rooms = [], sio_rooms = []\<rparr>"

text \<open>The events the handlers emit, one constructor per event name with its fields.\<close>

datatype payload =
    Connected sid
  | Error string
  | Joined string string "string list"
  | User_joined string string
  | Leaved string string
  | User_left string string
  | Message data

text \<open>
  \<^verbatim>\<open>emit(name, payload)\<close> inside a handler addresses the calling connection;
  \<^verbatim>\<open>emit(name, payload, room=r, skip_sid=c)\<close> addresses the subscribers of room \<open>r\<close>
  other than \<open>c\<close> (\<open>None\<close> when no \<^verbatim>\<open>skip_sid\<close> is given).
\<close>

datatype emit =
    Emit sid payload
  | Emit_room string "sid option" payload

section \<open>The library calls\<close>

text \<open>
  \<^verbatim>\<open>join_room(room_id)\<close> subscribes the calling connection to the room and
  \<^verbatim>\<open>leave_room(room_id)\<close> ends that subscription; neither reads \<^verbatim>\<open>rooms\<close> or
  \<^verbatim>\<open>user_rooms\<close>. A room-addressed emit is delivered to the connections subscribed at
  that moment, the skipped one apart; an emit without a room is delivered to the caller,
  kept here as a destination of its own.
\<close>

definition join_room :: "string \<Rightarrow> sid \<Rightarrow> state \<Rightarrow> state" where
  "join_room room_id c s = s\<lparr>sio_rooms := List.insert (room_id, c) (sio_rooms s)\<rparr>"

definition leave_room :: "string \<Rightarrow> sid \<Rightarrow> state \<Rightarrow> state" where
  "leave_room room_id c s = s\<lparr>sio_rooms := removeAll (room_id, c) (sio_rooms s)\<rparr>"

text \<open>After the disconnect handler has run, the library drops the connection from every room.\<close>

definition close_sid :: "sid \<Rightarrow> state \<Rightarrow> state" where
  "close_sid c s = s\<lparr>sio_rooms := filter (\<lambda>rc. snd rc \<noteq> c) (sio_rooms s)\<rparr>"

definition subscribers :: "state \<Rightarrow> string \<Rightarrow> sid list" where
  "subscribers s room_id = map snd (filter (\<lambda>rc. fst rc = room_id) (sio_rooms s))"

text \<open>The connections an emitted event is delivered to, in the state it is emitted in.\<close>

fun recipients :: "state \<Rightarrow> emit \<Rightarrow> sid list" where
  "recipients s (Emit c p) = [c]"
| "recipients s (Emit_room room_id skip p) =
     filter (\<lambda>c. Some c \<noteq> skip) (subscribers s room_id)"

fun body :: "emit \<Rightarrow> payload" where
  "body (Emit c p) = p"
| "body (Emit_room room_id skip p) = p"

definition received :: "state \<Rightarrow> emit list \<Rightarrow> sid \<Rightarrow> payload list" where
  "received s out c = map body (filter (\<lambda>e. c \<in> set (recipients s e)) out)"

section \<open>The handlers\<close>

text \<open>Python's \<^verbatim>\<open>not v\<close> on the result of \<^verbatim>\<open>data.get\<close>: true for None and for ''.\<close>

definition py_not :: "string option \<Rightarrow> bool" where
  "py_not v = (case v of None \<Rightarrow> True | Some x \<Rightarrow> x = [])"

text \<open>\<^verbatim>\<open>rooms[room_id]\<close>, read only where the key is present.\<close>

definition members :: "state \<Rightarrow> string \<Rightarrow> (string \<times> sid) list" where
  "members s room_id = (case map_of (rooms s) room_id of None \<Rightarrow> [] | Some m \<Rightarrow> m)"

definition handle_connect :: "sid \<Rightarrow> state \<Rightarrow> state \<times> emit list" where
  "handle_connect c s = (s, [Emit c (Connected c)])"

text \<open>\<^verbatim>\<open>_remove_user_from_room(sid, user_id, room_id)\<close>\<close>

definition remove_user_from_room :: "sid \<Rightarrow> string \<Rightarrow> string \<Rightarrow> state \<Rightarrow> state" where
  "remove_user_from_room c user_id room_id s =
     (let s1 =
        (case map_of (rooms s) room_id of
           None \<Rightarrow> s
         | Some m \<Rightarrow>
             if map_of m user_id \<noteq> None then
               (let sa = s\<lparr>rooms := AList.update room_id (AList.delete user_id m) (rooms s)\<rparr>
                in if members sa room_id = []
                   then sa\<lparr>rooms := AList.delete room_id (rooms sa)\<rparr>
                   else sa)
             else s)
      in if map_of (user_rooms s1) c \<noteq> None
         then s1\<lparr>user_rooms := AList.delete c (user_rooms s1)\<rparr>
         else s1)"

definition handle_disconnect :: "sid \<Rightarrow> state \<Rightarrow> state \<times> emit list" where
  "handle_disconnect c s =
     (case map_of (user_rooms s) c of
        None \<Rightarrow> (s, [])
      | Some user_info \<Rightarrow>
          (let user_id = userId user_info; room_id = roomId user_info;
               s1 = remove_user_from_room c user_id room_id s
           in (s1, [Emit_room room_id (Some c) (User_left user_id room_id)])))"

definition required :: string where
  "required = ''userId and roomId are required''"

text \<open>Lines 89 to 119 of \<^verbatim>\<open>handle_join\<close>, after the validation.\<close>

definition join_valid :: "sid \<Rightarrow> string \<Rightarrow> string \<Rightarrow> state \<Rightarrow> state \<times> emit list" where
  "join_valid c user_id room_id s =
     (let s1 = (if map_of (rooms s) room_id = None
                then s\<lparr>rooms := AList.update room_id [] (rooms s)\<rparr> else s);
          s2 = s1\<lparr>rooms := AList.update room_id
                              (AList.update user_id c (members s1 room_id)) (rooms s1)\<rparr>;
          s3 = s2\<lparr>user_rooms := AList.update c \<lparr>userId = user_id, roomId = room_id\<rparr>
                                   (user_rooms s2)\<rparr>;
          s4 = join_room room_id c s3;
          users_in_room = map fst (members s4 room_id)
      in (s4, [Emit c (Joined user_id room_id users_in_room),
               Emit_room room_id (Some c) (User_joined user_id room_id)]))"

definition handle_join :: "sid \<Rightarrow> data \<Rightarrow> state \<Rightarrow> state \<times> emit list" where
  "handle_join c d s =
     (let user_id = map_of d ''userId''; room_id = map_of d ''roomId''
      in if py_not user_id \<or> py_not room_id then (s, [Emit c (Error required)])
         else (case (user_id, room_id) of
                 (Some u, Some r) \<Rightarrow> join_valid c u r s
               | _ \<Rightarrow> (s, [Emit c (Error required)])))"

text \<open>Lines 133 to 153 of \<^verbatim>\<open>handle_leave\<close>, after the validation.\<close>

definition leave_valid :: "sid \<Rightarrow> string \<Rightarrow> string \<Rightarrow> state \<Rightarrow> state \<times> emit list" where
  "leave_valid c user_id room_id s =
     (let s1 = remove_user_from_room c user_id room_id s;
          s2 = leave_room room_id c s1
      in (s2, [Emit c (Leaved user_id room_id),
               Emit_room room_id None (User_left user_id room_id)]))"

definition handle_leave :: "sid \<Rightarrow> data \<Rightarrow> state \<Rightarrow> state \<times> emit list" where
  "handle_leave c d s =
     (let user_id = map_of d ''userId''; room_id = map_of d ''roomId''
      in if py_not user_id \<or> py_not room_id then (s, [Emit c (Error required)])
         else (case (user_id, room_id) of
                 (Some u, Some r) \<Rightarrow> leave_valid c u r s
               | _ \<Rightarrow> (s, [Emit c (Error required)])))"

definition handle_message :: "sid \<Rightarrow> data \<Rightarrow> state \<Rightarrow> state \<times> emit list" where
  "handle_message c d s =
     (case map_of d ''roomId'' of
        None \<Rightarrow> (s, [])
      | Some room_id \<Rightarrow>
          if room_id \<noteq> [] then (s, [Emit_room room_id (Some c) (Message d)]) else (s, []))"

section \<open>Sequences of operations\<close>

datatype operation =
    Connect sid
  | Join sid data
  | Leave sid data
  | Disconnect sid
  | Relay sid data

fun step :: "operation \<Rightarrow> state \<Rightarrow> state \<times> emit list" where
  "step (Connect c) s = handle_connect c s"
| "step (Join c d) s = handle_join c d s"
| "step (Leave c d) s = handle_leave c d s"
| "step (Disconnect c) s = (case handle_disconnect c s of (s1, out) \<Rightarrow> (close_sid c s1, out))"
| "step (Relay c d) s = handle_message c d s"

fun run :: "operation list \<Rightarrow> state \<Rightarrow> state" where
  "run [] s = s"
| "run (x # xs) s = run xs (fst (step x s))"

text \<open>The data of a join or leave event naming user \<open>u\<close> and room \<open>r\<close>.\<close>

definition req :: "string \<Rightarrow> string \<Rightarrow> data" where
  "req u r = [(''userId'', u), (''roomId'', r)]"

section \<open>The invariants of the specification\<close>

definition I1 :: "state \<Rightarrow> bool" where
  "I1 s = list_all (\<lambda>(r, m). list_all (\<lambda>(u, c).
            map_of (user_rooms s) c = Some \<lparr>userId = u, roomId = r\<rparr>) m) (rooms s)"

definition I2 :: "state \<Rightarrow> bool" where
  "I2 s = list_all (\<lambda>(c, info).
            (case map_of (rooms s) (roomId info) of
               None \<Rightarrow> False
             | Some m \<Rightarrow> map_of m (userId info) = Some c)) (user_rooms s)"

definition I3 :: "state \<Rightarrow> bool" where
  "I3 s = list_all (\<lambda>(r, m). m \<noteq> []) (rooms s)"

definition I4 :: "state \<Rightarrow> bool" where
  "I4 s = distinct (map fst (user_rooms s))"

text \<open>Each association list is a dict: no key occurs twice.\<close>

definition dicts :: "state \<Rightarrow> bool" where
  "dicts s = (distinct (map fst (rooms s)) \<and>
              list_all (\<lambda>(r, m). distinct (map fst m)) (rooms s) \<and>
              distinct (map fst (user_rooms s)))"

text \<open>Every connection with a session is subscribed to the room its session names.\<close>

definition subscribed :: "state \<Rightarrow> bool" where
  "subscribed s =
     list_all (\<lambda>(c, info). (roomId info, c) \<in> set (sio_rooms s)) (user_rooms s)"

section \<open>Association lists as dicts\<close>

lemma set_update_subset: "set (AList.update k v al) \<subseteq> insert (k, v) (set al)"
  by (induction al) auto

lemma set_delete_subset: "set (AList.delete k al) \<subseteq> set al"
  by (auto simp: AList.delete_eq)

lemma list_all_update:
  "list_all P al \<Longrightarrow> P (k, v) \<Longrightarrow> list_all P (AList.update k v al)"
  using set_update_subset [of k v al] by (auto simp: list_all_iff)

lemma list_all_delete: "list_all P al \<Longrightarrow> list_all P (AList.delete k al)"
  using set_delete_subset [of k al] by (auto simp: list_all_iff)

lemma members_update [simp]:
  "members (s\<lparr>rooms := AList.update r m (rooms s)\<rparr>) r = m"
  by (simp add: members_def update_conv')

lemmas handler_defs = handle_connect_def handle_join_def handle_leave_def handle_disconnect_def
  handle_message_def join_valid_def leave_valid_def remove_user_from_room_def join_room_def
  leave_room_def close_sid_def py_not_def members_def req_def init_def Let_def

section \<open>No empty room, one session per connection\<close>

lemma I3_sio [simp]: "I3 (s\<lparr>sio_rooms := x\<rparr>) = I3 s"
  by (simp add: I3_def)

lemma I4_sio [simp]: "I4 (s\<lparr>sio_rooms := x\<rparr>) = I4 s"
  by (simp add: I4_def)

lemma I3_remove: "I3 s \<Longrightarrow> I3 (remove_user_from_room c u r s)"
  by (auto simp: I3_def remove_user_from_room_def Let_def delete_update_same
      intro!: list_all_update list_all_delete split: option.splits)

lemma I3_join: "I3 s \<Longrightarrow> I3 (fst (join_valid c u r s))"
  by (auto simp: I3_def join_valid_def Let_def join_room_def intro!: list_all_update)

lemma I4_remove: "I4 s \<Longrightarrow> I4 (remove_user_from_room c u r s)"
  by (auto simp: I4_def remove_user_from_room_def Let_def distinct_delete split: option.splits)

lemma I4_join: "I4 s \<Longrightarrow> I4 (fst (join_valid c u r s))"
  by (auto simp: I4_def join_valid_def Let_def join_room_def distinct_update)

lemma I3_step:
  assumes "I3 s"
  shows "I3 (fst (step x s))"
proof (cases x)
  case (Join c d)
  with assms show ?thesis
    by (auto simp: handle_join_def Let_def I3_join split: option.splits)
next
  case (Leave c d)
  with assms show ?thesis
    by (auto simp: handle_leave_def leave_valid_def leave_room_def Let_def I3_remove
        split: option.splits)
next
  case (Disconnect c)
  with assms show ?thesis
    by (auto simp: handle_disconnect_def close_sid_def Let_def I3_remove split: option.splits)
qed (use assms in \<open>auto simp: handle_connect_def handle_message_def split: option.splits\<close>)

lemma I4_step:
  assumes "I4 s"
  shows "I4 (fst (step x s))"
proof (cases x)
  case (Join c d)
  with assms show ?thesis
    by (auto simp: handle_join_def Let_def I4_join split: option.splits)
next
  case (Leave c d)
  with assms show ?thesis
    by (auto simp: handle_leave_def leave_valid_def leave_room_def Let_def I4_remove
        split: option.splits)
next
  case (Disconnect c)
  with assms show ?thesis
    by (auto simp: handle_disconnect_def close_sid_def Let_def I4_remove split: option.splits)
qed (use assms in \<open>auto simp: handle_connect_def handle_message_def split: option.splits\<close>)

lemma I3_run: "I3 s \<Longrightarrow> I3 (run ops s)"
  by (induction ops arbitrary: s) (simp_all add: I3_step)

lemma I4_run: "I4 s \<Longrightarrow> I4 (run ops s)"
  by (induction ops arbitrary: s) (simp_all add: I4_step)

lemma I3_init: "I3 init"
  by (simp add: I3_def init_def)

lemma I4_init: "I4 init"
  by (simp add: I4_def init_def)

section \<open>What each handler does to the two dictionaries\<close>

lemma handle_join_valid:
  "map_of d ''userId'' = Some u \<Longrightarrow> u \<noteq> [] \<Longrightarrow> map_of d ''roomId'' = Some r \<Longrightarrow> r \<noteq> []
   \<Longrightarrow> handle_join c d s = join_valid c u r s"
  by (simp add: handle_join_def py_not_def)

lemma handle_leave_valid:
  "map_of d ''userId'' = Some u \<Longrightarrow> u \<noteq> [] \<Longrightarrow> map_of d ''roomId'' = Some r \<Longrightarrow> r \<noteq> []
   \<Longrightarrow> handle_leave c d s = leave_valid c u r s"
  by (simp add: handle_leave_def py_not_def)

lemma rooms_join_valid:
  "rooms (fst (join_valid c u r s)) =
     AList.update r (AList.update u c (members s r)) (rooms s)"
  by (auto simp: join_valid_def Let_def join_room_def members_def update_conv'
      split: option.splits)

lemma user_rooms_join_valid:
  "user_rooms (fst (join_valid c u r s)) =
     AList.update c \<lparr>userId = u, roomId = r\<rparr> (user_rooms s)"
  by (simp add: join_valid_def Let_def join_room_def)

lemma members_join_valid:
  "members (fst (join_valid c u r s)) r = AList.update u c (members s r)"
  by (simp add: members_def rooms_join_valid update_conv')

lemma snd_join_valid:
  "snd (join_valid c u r s) =
     [Emit c (Joined u r (map fst (members (fst (join_valid c u r s)) r))),
      Emit_room r (Some c) (User_joined u r)]"
  by (simp add: join_valid_def Let_def)

lemma user_rooms_remove:
  "user_rooms (remove_user_from_room c u r s) = AList.delete c (user_rooms s)"
  by (auto simp: remove_user_from_room_def Let_def map_of_eq_None_iff split: option.splits)

lemma sio_rooms_remove [simp]:
  "sio_rooms (remove_user_from_room c u r s) = sio_rooms s"
  by (auto simp: remove_user_from_room_def Let_def split: option.splits)

lemma rooms_remove_absent:
  "map_of (members s r) u = None \<Longrightarrow> rooms (remove_user_from_room c u r s) = rooms s"
  by (auto simp: remove_user_from_room_def Let_def members_def split: option.splits)

lemma rooms_remove_present:
  "map_of (rooms s) r = Some m \<Longrightarrow> map_of m u \<noteq> None \<Longrightarrow>
   rooms (remove_user_from_room c u r s) =
     (if AList.delete u m = [] then AList.delete r (rooms s)
      else AList.update r (AList.delete u m) (rooms s))"
  by (auto simp: remove_user_from_room_def Let_def delete_update_same split: option.splits)

lemma map_of_rooms_remove_other:
  "r' \<noteq> r \<Longrightarrow> map_of (rooms (remove_user_from_room c u r s)) r' = map_of (rooms s) r'"
  by (auto simp: remove_user_from_room_def Let_def update_conv' delete_conv'
      split: option.splits)

lemma members_remove:
  "map_of (members (remove_user_from_room c u r s) r) u' =
     (if u' = u then None else map_of (members s r) u')"
proof (cases "map_of (members s r) u")
  case None
  then show ?thesis
    by (auto simp: members_def rooms_remove_absent)
next
  case (Some a)
  then obtain m where m: "map_of (rooms s) r = Some m" "map_of m u \<noteq> None"
    by (auto simp: members_def split: option.splits)
  have "AList.delete u m = [] \<Longrightarrow> u' \<noteq> u \<Longrightarrow> map_of m u' = None"
    using map_of_delete [of u' u m] by simp
  with m show ?thesis
    by (auto simp: members_def rooms_remove_present update_conv' delete_conv')
qed

lemma remove_last:
  "map_of (rooms s) r = Some [(u, c')] \<Longrightarrow>
   map_of (rooms (remove_user_from_room c u r s)) r = None"
  by (simp add: rooms_remove_present delete_conv')

lemma rooms_close_sid [simp]: "rooms (close_sid c s) = rooms s"
  by (simp add: close_sid_def)

lemma rooms_leave_valid:
  "rooms (fst (leave_valid c u r s)) = rooms (remove_user_from_room c u r s)"
  by (simp add: leave_valid_def leave_room_def Let_def)

lemma handle_disconnect_session:
  "map_of (user_rooms s) c = Some \<lparr>userId = u, roomId = r\<rparr> \<Longrightarrow>
   handle_disconnect c s =
     (remove_user_from_room c u r s, [Emit_room r (Some c) (User_left u r)])"
  by (simp add: handle_disconnect_def Let_def)

lemma I3_lookup: "I3 s \<Longrightarrow> map_of (rooms s) r = Some m \<Longrightarrow> m \<noteq> []"
  by (auto simp: I3_def list_all_iff dest!: map_of_SomeD)

section \<open>The association lists stay dicts\<close>

lemma distinct_members: "dicts s \<Longrightarrow> distinct (map fst (members s r))"
  by (auto simp: dicts_def members_def list_all_iff split: option.splits dest!: map_of_SomeD)

lemma dicts_remove: "dicts s \<Longrightarrow> dicts (remove_user_from_room c u r s)"
  by (auto simp: dicts_def remove_user_from_room_def Let_def distinct_delete distinct_update
      delete_update_same list_all_iff
      dest!: subsetD [OF set_update_subset] subsetD [OF set_delete_subset] map_of_SomeD
      split: option.splits)

lemma dicts_join: "dicts s \<Longrightarrow> dicts (fst (join_valid c u r s))"
  using distinct_members [of s r]
  by (auto simp: dicts_def rooms_join_valid user_rooms_join_valid distinct_update list_all_iff
      dest!: subsetD [OF set_update_subset])

lemma dicts_sio [simp]: "dicts (s\<lparr>sio_rooms := x\<rparr>) = dicts s"
  by (simp add: dicts_def)

lemma dicts_step:
  assumes "dicts s"
  shows "dicts (fst (step x s))"
proof (cases x)
  case (Join c d)
  with assms show ?thesis
    by (auto simp: handle_join_def Let_def dicts_join split: option.splits)
next
  case (Leave c d)
  with assms show ?thesis
    by (auto simp: handle_leave_def leave_valid_def leave_room_def Let_def dicts_remove
        split: option.splits)
next
  case (Disconnect c)
  with assms show ?thesis
    by (auto simp: handle_disconnect_def close_sid_def Let_def dicts_remove
        split: option.splits)
qed (use assms in \<open>auto simp: handle_connect_def handle_message_def split: option.splits\<close>)

lemma dicts_run: "dicts (run ops init)"
proof -
  have "dicts s \<Longrightarrow> dicts (run ops s)" for s
    by (induction ops arbitrary: s) (simp_all add: dicts_step)
  then show ?thesis
    by (simp add: dicts_def init_def)
qed

section \<open>Sessions and subscriptions\<close>

lemma subscribed_join: "subscribed s \<Longrightarrow> subscribed (fst (join_valid c u r s))"
  by (auto simp: subscribed_def join_valid_def Let_def join_room_def list_all_iff
      dest!: subsetD [OF set_update_subset])

lemma subscribed_remove: "subscribed s \<Longrightarrow> subscribed (remove_user_from_room c u r s)"
  by (auto simp: subscribed_def list_all_iff user_rooms_remove AList.delete_eq)

lemma subscribed_leave: "subscribed s \<Longrightarrow> subscribed (fst (leave_valid c u r s))"
  by (auto simp: subscribed_def leave_valid_def Let_def leave_room_def list_all_iff
      user_rooms_remove AList.delete_eq)

lemma subscribed_disconnect:
  "subscribed s \<Longrightarrow> subscribed (close_sid c (fst (handle_disconnect c s)))"
  by (force simp: subscribed_def handle_disconnect_def close_sid_def Let_def list_all_iff
      user_rooms_remove AList.delete_eq map_of_eq_None_iff split: option.splits)

lemma subscribed_step:
  assumes "subscribed s"
  shows "subscribed (fst (step x s))"
proof (cases x)
  case (Join c d)
  with assms show ?thesis
    by (auto simp: handle_join_def Let_def subscribed_join split: option.splits)
next
  case (Leave c d)
  with assms show ?thesis
    by (auto simp: handle_leave_def Let_def subscribed_leave split: option.splits)
next
  case (Disconnect c)
  with assms subscribed_disconnect [of s c] show ?thesis
    by (auto split: prod.splits)
qed (use assms in \<open>auto simp: handle_connect_def handle_message_def split: option.splits\<close>)

lemma subscribed_run: "subscribed (run ops init)"
proof -
  have "subscribed s \<Longrightarrow> subscribed (run ops s)" for s
    by (induction ops arbitrary: s) (simp_all add: subscribed_step)
  then show ?thesis
    by (simp add: subscribed_def init_def)
qed

lemma subscribed_member:
  assumes "subscribed s" "map_of (user_rooms s) c' = Some \<lparr>userId = u, roomId = r\<rparr>"
  shows "c' \<in> set (subscribers s r)"
proof -
  from assms(2) have "(c', \<lparr>userId = u, roomId = r\<rparr>) \<in> set (user_rooms s)"
    by (rule map_of_SomeD)
  with assms(1) have "(r, c') \<in> set (sio_rooms s)"
    by (auto simp: subscribed_def list_all_iff)
  then show ?thesis
    by (force simp: subscribers_def)
qed

lemma set_recipients_room:
  "set (recipients s (Emit_room r (Some c) p)) = set (subscribers s r) - {c}"
  by auto

section \<open>Properties of the specification\<close>

text \<open>
  C1. The claim: after every finite sequence of operations from the empty state, I1, I2, I3
  and I4 hold. I1 and I2 do not: \<^verbatim>\<open>handle_join\<close> overwrites the session of a connection
  without leaving the room the old session names, and overwrites the slot of a user
  without clearing the session of the connection that held it. After connection c1 joins
  room A and then room B as user U, and connection c2 joins room B as the same user U,
  room A still maps U to c1 while the session of c1 names room B (I1 fails), and the
  session of c1 names (U, B) while room B maps U to c2 (I2 fails).
\<close>

theorem invariants_counterexample:
  "\<not> I1 (run [Join ''c1'' (req ''U'' ''A''), Join ''c1'' (req ''U'' ''B''),
              Join ''c2'' (req ''U'' ''B'')] init) \<and>
   \<not> I2 (run [Join ''c1'' (req ''U'' ''A''), Join ''c1'' (req ''U'' ''B''),
              Join ''c2'' (req ''U'' ''B'')] init)"
  by (simp add: handler_defs I1_def I2_def)

text \<open>
  C1, as amended: after every finite sequence of connect, join, leave, disconnect and relay
  operations from the empty state, no room has an empty member mapping (I3) and no
  connection has two sessions (I4).
\<close>

theorem invariants_I3_I4: "I3 (run ops init) \<and> I4 (run ops init)"
  by (simp add: I3_run I4_run I3_init I4_init)

theorem invariants_I3_I4_witness:
  "I3 (run [Join ''c1'' (req ''U'' ''A''), Join ''c2'' (req ''V'' ''A''),
            Disconnect ''c1''] init) \<and>
   I4 (run [Join ''c1'' (req ''U'' ''A''), Join ''c2'' (req ''V'' ''A''),
            Disconnect ''c1''] init) \<and>
   rooms (run [Join ''c1'' (req ''U'' ''A''), Join ''c2'' (req ''V'' ''A''),
               Disconnect ''c1''] init) = [(''A'', [(''V'', ''c2'')])]"
  using invariants_I3_I4 [of "[Join ''c1'' (req ''U'' ''A''), Join ''c2'' (req ''V'' ''A''),
    Disconnect ''c1'']"]
  by (simp add: handler_defs)

text \<open>
  C2. The claim: a leave naming a user who is not a member of the room produces no error
  and emits no user-left broadcast. \<^verbatim>\<open>handle_leave\<close> emits \<^verbatim>\<open>leaved\<close> and
  \<^verbatim>\<open>user-left\<close> after the validation whatever \<^verbatim>\<open>_remove_user_from_room\<close> found.
  With A on c1 and B on c2 in room R, after c1 has left as A, A is no member of R; a
  second leave of c1 as A emits the broadcast again, and c2 receives it.
\<close>

theorem leave_twice_counterexample:
  "map_of (members (run [Join ''c1'' (req ''A'' ''R''), Join ''c2'' (req ''B'' ''R''),
                         Leave ''c1'' (req ''A'' ''R'')] init) ''R'') ''A'' = None \<and>
   snd (step (Leave ''c1'' (req ''A'' ''R''))
          (run [Join ''c1'' (req ''A'' ''R''), Join ''c2'' (req ''B'' ''R''),
                Leave ''c1'' (req ''A'' ''R'')] init)) =
     [Emit ''c1'' (Leaved ''A'' ''R''), Emit_room ''R'' None (User_left ''A'' ''R'')] \<and>
   received (run [Join ''c1'' (req ''A'' ''R''), Join ''c2'' (req ''B'' ''R''),
                  Leave ''c1'' (req ''A'' ''R''), Leave ''c1'' (req ''A'' ''R'')] init)
     (snd (step (Leave ''c1'' (req ''A'' ''R''))
          (run [Join ''c1'' (req ''A'' ''R''), Join ''c2'' (req ''B'' ''R''),
                Leave ''c1'' (req ''A'' ''R'')] init))) ''c2'' = [User_left ''A'' ''R'']"
  by (simp add: handler_defs received_def subscribers_def)

text \<open>
  C2, as amended: a leave with non-empty userId \<open>u\<close> and roomId \<open>r\<close>, when \<open>u\<close> is not a
  member of room \<open>r\<close>, leaves the room mapping unchanged and emits exactly the
  \<^verbatim>\<open>leaved\<close> acknowledgement to the caller and the \<^verbatim>\<open>user-left\<close> broadcast to room
  \<open>r\<close>: no error event.
\<close>

theorem leave_absent_member:
  assumes "map_of d ''userId'' = Some u" "u \<noteq> []" "map_of d ''roomId'' = Some r" "r \<noteq> []"
    and "map_of (members s r) u = None"
  shows "rooms (fst (handle_leave c d s)) = rooms s \<and>
         snd (handle_leave c d s) = [Emit c (Leaved u r), Emit_room r None (User_left u r)]"
  using assms
  by (simp add: handle_leave_valid leave_valid_def leave_room_def Let_def rooms_remove_absent)

theorem leave_absent_member_witness:
  "map_of (req ''A'' ''R'') ''userId'' = Some ''A'' \<and> ''A'' \<noteq> [] \<and>
   map_of (req ''A'' ''R'') ''roomId'' = Some ''R'' \<and> ''R'' \<noteq> [] \<and>
   map_of (members (run [Join ''c2'' (req ''B'' ''R'')] init) ''R'') ''A'' = None \<and>
   rooms (fst (handle_leave ''c1'' (req ''A'' ''R'') (run [Join ''c2'' (req ''B'' ''R'')] init)))
     = [(''R'', [(''B'', ''c2'')])] \<and>
   snd (handle_leave ''c1'' (req ''A'' ''R'') (run [Join ''c2'' (req ''B'' ''R'')] init)) =
     [Emit ''c1'' (Leaved ''A'' ''R''), Emit_room ''R'' None (User_left ''A'' ''R'')]"
  using leave_absent_member [of "req ''A'' ''R''" "''A''" "''R''"
      "run [Join ''c2'' (req ''B'' ''R'')] init" "''c1''"]
  by (simp add: handler_defs)

text \<open>
  C3. In every state reached from the empty one, a room that is found has a non-empty
  member mapping. A join naming a room that is not found creates it with the joining user
  as its one member; the leave, or the disconnect, that removes the one member of a room
  deletes the entry, and the lookup finds nothing.
\<close>

theorem room_lifecycle:
  "(\<forall>r m. map_of (rooms (run ops init)) r = Some m \<longrightarrow> m \<noteq> []) \<and>
   (map_of d ''userId'' = Some u \<and> u \<noteq> [] \<and> map_of d ''roomId'' = Some r \<and> r \<noteq> [] \<longrightarrow>
      (map_of (rooms s) r = None \<longrightarrow>
         map_of (rooms (fst (step (Join c d) s))) r = Some [(u, c)]) \<and>
      (map_of (rooms s) r = Some [(u, c')] \<longrightarrow>
         map_of (rooms (fst (step (Leave c d) s))) r = None)) \<and>
   (map_of (user_rooms s) c = Some \<lparr>userId = u, roomId = r\<rparr> \<and>
    map_of (rooms s) r = Some [(u, c')] \<longrightarrow>
      map_of (rooms (fst (step (Disconnect c) s))) r = None)"
proof (intro conjI allI impI)
  fix r m
  assume "map_of (rooms (run ops init)) r = Some m"
  with I3_run [OF I3_init, of ops] show "m \<noteq> []"
    by (rule I3_lookup)
next
  assume "map_of d ''userId'' = Some u \<and> u \<noteq> [] \<and> map_of d ''roomId'' = Some r \<and> r \<noteq> []"
    and "map_of (rooms s) r = None"
  then show "map_of (rooms (fst (step (Join c d) s))) r = Some [(u, c)]"
    by (simp add: handle_join_valid rooms_join_valid update_conv' members_def)
next
  assume "map_of d ''userId'' = Some u \<and> u \<noteq> [] \<and> map_of d ''roomId'' = Some r \<and> r \<noteq> []"
    and "map_of (rooms s) r = Some [(u, c')]"
  then show "map_of (rooms (fst (step (Leave c d) s))) r = None"
    by (simp add: handle_leave_valid rooms_leave_valid remove_last)
next
  assume "map_of (user_rooms s) c = Some \<lparr>userId = u, roomId = r\<rparr> \<and>
    map_of (rooms s) r = Some [(u, c')]"
  then show "map_of (rooms (fst (step (Disconnect c) s))) r = None"
    by (simp add: handle_disconnect_session remove_last)
qed

theorem room_lifecycle_witness:
  "map_of (rooms (run [Join ''c1'' (req ''U'' ''R'')] init)) ''R'' = Some [(''U'', ''c1'')] \<and>
   [(''U'', ''c1'')] \<noteq> [] \<and>
   map_of (rooms init) ''R'' = None \<and>
   map_of (rooms (fst (step (Join ''c1'' (req ''U'' ''R'')) init))) ''R'' =
     Some [(''U'', ''c1'')] \<and>
   map_of (rooms (fst (step (Leave ''c1'' (req ''U'' ''R''))
     (run [Join ''c1'' (req ''U'' ''R'')] init)))) ''R'' = None \<and>
   map_of (user_rooms (run [Join ''c1'' (req ''U'' ''R'')] init)) ''c1'' =
     Some \<lparr>userId = ''U'', roomId = ''R''\<rparr> \<and>
   map_of (rooms (fst (step (Disconnect ''c1'')
     (run [Join ''c1'' (req ''U'' ''R'')] init)))) ''R'' = None"
  using
    room_lifecycle [of "[Join ''c1'' (req ''U'' ''R'')]" "req ''U'' ''R''" "''U''" "''R''"
      init "''c1''" "''c1''"]
    room_lifecycle [of "[Join ''c1'' (req ''U'' ''R'')]" "req ''U'' ''R''" "''U''" "''R''"
      "run [Join ''c1'' (req ''U'' ''R'')] init" "''c1''" "''c1''"]
  by (simp add: handler_defs)

text \<open>
  C4. A join or a leave whose userId or roomId is missing or empty emits one event, the
  error, to the calling connection alone; the state it returns is the state it was given
  (both dictionaries and the subscriptions), and nothing is emitted to a room.
\<close>

theorem validation_error:
  assumes "py_not (map_of d ''userId'') \<or> py_not (map_of d ''roomId'')"
  shows "handle_join c d s = (s, [Emit c (Error required)]) \<and>
         handle_leave c d s = (s, [Emit c (Error required)]) \<and>
         recipients s (Emit c (Error required)) = [c]"
  using assms by (auto simp: handle_join_def handle_leave_def)

theorem validation_error_witness:
  "(py_not (map_of [(''userId'', ''U''), (''roomId'', '''')] ''userId'') \<or>
    py_not (map_of [(''userId'', ''U''), (''roomId'', '''')] ''roomId'')) \<and>
   handle_join ''c1'' [(''userId'', ''U''), (''roomId'', '''')] init =
     (init, [Emit ''c1'' (Error required)]) \<and>
   handle_leave ''c1'' [(''userId'', ''U''), (''roomId'', '''')] init =
     (init, [Emit ''c1'' (Error required)])"
  using validation_error [of "[(''userId'', ''U''), (''roomId'', '''')]" "''c1''" init]
  by (simp add: py_not_def)

text \<open>
  C5. The claim: when \<open>c\<close> has a session recording \<open>(u, r)\<close>, the disconnect broadcasts
  \<^verbatim>\<open>user-left\<close> to the remaining members of \<open>r\<close>. The broadcast goes to the connections
  subscribed to room \<open>r\<close>, and a member of the room mapping need not be one: after c1 has
  joined R as U and sent a leave naming user X and room R, room R still maps U to c1 but
  \<^verbatim>\<open>leave_room\<close> has ended the subscription of c1. When c2, which joined R as V, then
  disconnects, U on c1 remains in R and c1 receives nothing.
\<close>

theorem disconnect_cleanup_counterexample:
  "map_of (user_rooms (run [Join ''c1'' (req ''U'' ''R''), Leave ''c1'' (req ''X'' ''R''),
                            Join ''c2'' (req ''V'' ''R'')] init)) ''c2'' =
     Some \<lparr>userId = ''V'', roomId = ''R''\<rparr> \<and>
   members (fst (handle_disconnect ''c2''
       (run [Join ''c1'' (req ''U'' ''R''), Leave ''c1'' (req ''X'' ''R''),
             Join ''c2'' (req ''V'' ''R'')] init))) ''R'' = [(''U'', ''c1'')] \<and>
   snd (handle_disconnect ''c2''
       (run [Join ''c1'' (req ''U'' ''R''), Leave ''c1'' (req ''X'' ''R''),
             Join ''c2'' (req ''V'' ''R'')] init)) =
     [Emit_room ''R'' (Some ''c2'') (User_left ''V'' ''R'')] \<and>
   received (fst (handle_disconnect ''c2''
       (run [Join ''c1'' (req ''U'' ''R''), Leave ''c1'' (req ''X'' ''R''),
             Join ''c2'' (req ''V'' ''R'')] init)))
     (snd (handle_disconnect ''c2''
       (run [Join ''c1'' (req ''U'' ''R''), Leave ''c1'' (req ''X'' ''R''),
             Join ''c2'' (req ''V'' ''R'')] init))) ''c1'' = []"
  by (simp add: handler_defs received_def subscribers_def)

text \<open>
  C5, as amended: when connection \<open>c\<close> has a session recording \<open>(u, r)\<close>,
  \<^verbatim>\<open>handle_disconnect\<close> emits one event, \<^verbatim>\<open>user-left\<close> with \<open>u\<close> and \<open>r\<close>, to room
  \<open>r\<close> with \<open>c\<close> skipped, and nothing to \<open>c\<close>. In the state it returns \<open>u\<close> is no member
  of \<open>r\<close>, the other members of \<open>r\<close> and the other rooms are as before, room \<open>r\<close> is gone
  if \<open>u\<close> was its one member, and \<open>c\<close> has no session while the other sessions are as
  before. The broadcast reaches the connections subscribed to \<open>r\<close> other than \<open>c\<close>; in a
  state reached from the empty one these include every other connection whose session
  records room \<open>r\<close>. When \<open>c\<close> has no session the handler returns the state it was given
  and emits nothing.
\<close>

theorem disconnect_cleanup:
  "(map_of (user_rooms s) c = Some \<lparr>userId = u, roomId = r\<rparr> \<longrightarrow>
      (let s' = fst (handle_disconnect c s) in
         snd (handle_disconnect c s) = [Emit_room r (Some c) (User_left u r)] \<and>
         map_of (members s' r) u = None \<and>
         (\<forall>u'. u' \<noteq> u \<longrightarrow> map_of (members s' r) u' = map_of (members s r) u') \<and>
         (\<forall>r'. r' \<noteq> r \<longrightarrow> map_of (rooms s') r' = map_of (rooms s) r') \<and>
         (\<forall>c'. map_of (rooms s) r = Some [(u, c')] \<longrightarrow> map_of (rooms s') r = None) \<and>
         map_of (user_rooms s') c = None \<and>
         (\<forall>c'. c' \<noteq> c \<longrightarrow> map_of (user_rooms s') c' = map_of (user_rooms s) c') \<and>
         set (recipients s' (Emit_room r (Some c) (User_left u r))) =
           set (subscribers s' r) - {c} \<and>
         (s = run ops init \<longrightarrow>
            (\<forall>c' u'. c' \<noteq> c \<and>
                map_of (user_rooms s') c' = Some \<lparr>userId = u', roomId = r\<rparr> \<longrightarrow>
                c' \<in> set (recipients s' (Emit_room r (Some c) (User_left u r))))))) \<and>
   (map_of (user_rooms s) c = None \<longrightarrow> handle_disconnect c s = (s, []))"
proof (intro conjI impI)
  assume "map_of (user_rooms s) c = None"
  then show "handle_disconnect c s = (s, [])"
    by (simp add: handle_disconnect_def)
next
  assume sess: "map_of (user_rooms s) c = Some \<lparr>userId = u, roomId = r\<rparr>"
  define s' where "s' = remove_user_from_room c u r s"
  have hd: "handle_disconnect c s = (s', [Emit_room r (Some c) (User_left u r)])"
    using sess by (simp add: handle_disconnect_session s'_def)
  have sub: "subscribed s'" if "s = run ops init"
    using that by (simp add: s'_def subscribed_remove subscribed_run)
  have deliver: "c' \<in> set (recipients s' (Emit_room r (Some c) (User_left u r)))"
    if "s = run ops init" "c' \<noteq> c"
      "map_of (user_rooms s') c' = Some \<lparr>userId = u', roomId = r\<rparr>" for c' u'
    using subscribed_member [OF sub [OF that(1)] that(3)] that(2) by simp
  show "let s' = fst (handle_disconnect c s) in
         snd (handle_disconnect c s) = [Emit_room r (Some c) (User_left u r)] \<and>
         map_of (members s' r) u = None \<and>
         (\<forall>u'. u' \<noteq> u \<longrightarrow> map_of (members s' r) u' = map_of (members s r) u') \<and>
         (\<forall>r'. r' \<noteq> r \<longrightarrow> map_of (rooms s') r' = map_of (rooms s) r') \<and>
         (\<forall>c'. map_of (rooms s) r = Some [(u, c')] \<longrightarrow> map_of (rooms s') r = None) \<and>
         map_of (user_rooms s') c = None \<and>
         (\<forall>c'. c' \<noteq> c \<longrightarrow> map_of (user_rooms s') c' = map_of (user_rooms s) c') \<and>
         set (recipients s' (Emit_room r (Some c) (User_left u r))) =
           set (subscribers s' r) - {c} \<and>
         (s = run ops init \<longrightarrow>
            (\<forall>c' u'. c' \<noteq> c \<and>
                map_of (user_rooms s') c' = Some \<lparr>userId = u', roomId = r\<rparr> \<longrightarrow>
                c' \<in> set (recipients s' (Emit_room r (Some c) (User_left u r)))))"
    unfolding hd Let_def fst_conv snd_conv
  proof (intro conjI allI impI)
    show "map_of (members s' r) u = None"
      by (simp add: s'_def members_remove)
    show "map_of (members s' r) u' = map_of (members s r) u'" if "u' \<noteq> u" for u'
      using that by (simp add: s'_def members_remove)
    show "map_of (rooms s') r' = map_of (rooms s) r'" if "r' \<noteq> r" for r'
      using that by (simp add: s'_def map_of_rooms_remove_other)
    show "map_of (rooms s') r = None" if "map_of (rooms s) r = Some [(u, c')]" for c'
      using that by (simp add: s'_def remove_last)
    show "map_of (user_rooms s') c = None"
      by (simp add: s'_def user_rooms_remove delete_conv')
    show "map_of (user_rooms s') c' = map_of (user_rooms s) c'" if "c' \<noteq> c" for c'
      using that by (simp add: s'_def user_rooms_remove delete_conv')
    show "set (recipients s' (Emit_room r (Some c) (User_left u r))) =
           set (subscribers s' r) - {c}"
      by (rule set_recipients_room)
    show "c' \<in> set (recipients s' (Emit_room r (Some c) (User_left u r)))"
      if "s = run ops init"
        "c' \<noteq> c \<and> map_of (user_rooms s') c' = Some \<lparr>userId = u', roomId = r\<rparr>" for c' u'
      using deliver [of c' u'] that by blast
  qed simp
qed

theorem disconnect_cleanup_witness:
  "map_of (user_rooms (run [Join ''c1'' (req ''A'' ''R''), Join ''c2'' (req ''B'' ''R'')] init))
     ''c1'' = Some \<lparr>userId = ''A'', roomId = ''R''\<rparr> \<and>
   handle_disconnect ''c1'' (run [Join ''c1'' (req ''A'' ''R''), Join ''c2'' (req ''B'' ''R'')] init)
     = (\<lparr>rooms = [(''R'', [(''B'', ''c2'')])],
         user_rooms = [(''c2'', \<lparr>userId = ''B'', roomId = ''R''\<rparr>)],
         sio_rooms = [(''R'', ''c2''), (''R'', ''c1'')]\<rparr>,
        [Emit_room ''R'' (Some ''c1'') (User_left ''A'' ''R'')]) \<and>
   recipients (fst (handle_disconnect ''c1''
       (run [Join ''c1'' (req ''A'' ''R''), Join ''c2'' (req ''B'' ''R'')] init)))
     (Emit_room ''R'' (Some ''c1'') (User_left ''A'' ''R'')) = [''c2''] \<and>
   map_of (user_rooms init) ''c1'' = None \<and>
   handle_disconnect ''c1'' init = (init, [])"
  using
    disconnect_cleanup [of "run [Join ''c1'' (req ''A'' ''R''), Join ''c2'' (req ''B'' ''R'')] init"
      "''c1''" "''A''" "''R''" "[Join ''c1'' (req ''A'' ''R''), Join ''c2'' (req ''B'' ''R'')]"]
    disconnect_cleanup [of init "''c1''" "''A''" "''R''" "[]"]
  by (simp add: handler_defs subscribers_def)

text \<open>
  C6. The claim: after connection C1 and then connection C2 join room R as the same user U,
  R maps U to C2 and no event of any kind is sent to C1. The mapping is as claimed, but
  C1 is still subscribed to room R, so the \<^verbatim>\<open>user-joined\<close> broadcast of the second join,
  which skips only C2, is delivered to C1.
\<close>

theorem join_replace_counterexample:
  "received (run [Join ''c1'' (req ''U'' ''R''), Join ''c2'' (req ''U'' ''R'')] init)
     (snd (step (Join ''c2'' (req ''U'' ''R'')) (run [Join ''c1'' (req ''U'' ''R'')] init)))
     ''c1'' = [User_joined ''U'' ''R'']"
  by (simp add: handler_defs received_def subscribers_def)

text \<open>
  C6, as amended: for distinct connections C1 and C2 and non-empty U and R, after
  join(C1, U, R) followed by join(C2, U, R), room R maps U to C2; the second join emits the
  \<^verbatim>\<open>joined\<close> reply to C2 and the \<^verbatim>\<open>user-joined\<close> broadcast to room R skipping C2, and
  nothing else; the one event C1 receives is that \<^verbatim>\<open>user-joined\<close> broadcast.
\<close>

theorem join_replace:
  assumes "map_of d ''userId'' = Some u" "u \<noteq> []" "map_of d ''roomId'' = Some r" "r \<noteq> []"
    and "c1 \<noteq> c2"
  shows "(let s1 = fst (handle_join c1 d s); s2 = fst (handle_join c2 d s1);
              out = snd (handle_join c2 d s1) in
          map_of (members s2 r) u = Some c2 \<and>
          out = [Emit c2 (Joined u r (map fst (members s2 r))),
                 Emit_room r (Some c2) (User_joined u r)] \<and>
          received s2 out c1 = [User_joined u r])"
proof -
  have "(r, c1) \<in> set (sio_rooms (fst (join_valid c2 u r (fst (join_valid c1 u r s)))))"
    by (simp add: join_valid_def join_room_def Let_def)
  then have "c1 \<in> set (subscribers (fst (join_valid c2 u r (fst (join_valid c1 u r s)))) r)"
    by (force simp: subscribers_def)
  with assms show ?thesis
    by (simp add: handle_join_valid snd_join_valid members_join_valid update_conv' Let_def
        received_def)
qed

theorem join_replace_witness:
  "map_of (req ''U'' ''R'') ''userId'' = Some ''U'' \<and> ''U'' \<noteq> [] \<and>
   map_of (req ''U'' ''R'') ''roomId'' = Some ''R'' \<and> ''R'' \<noteq> [] \<and> ''c1'' \<noteq> ''c2'' \<and>
   rooms (fst (handle_join ''c2'' (req ''U'' ''R'')
     (fst (handle_join ''c1'' (req ''U'' ''R'') init)))) = [(''R'', [(''U'', ''c2'')])] \<and>
   snd (handle_join ''c2'' (req ''U'' ''R'') (fst (handle_join ''c1'' (req ''U'' ''R'') init))) =
     [Emit ''c2'' (Joined ''U'' ''R'' [''U'']),
      Emit_room ''R'' (Some ''c2'') (User_joined ''U'' ''R'')]"
  using join_replace [of "req ''U'' ''R''" "''U''" "''R''" "''c1''" "''c2''" init]
  by (simp add: handler_defs)

text \<open>
  C7. A leave of connection \<open>c\<close> with non-empty userId and roomId removes the session of
  \<open>c\<close>, whatever user and room that session records and whether or not the named user is
  a member of the named room; no other session changes.
\<close>

theorem leave_clears_session:
  assumes "map_of d ''userId'' = Some u" "u \<noteq> []" "map_of d ''roomId'' = Some r" "r \<noteq> []"
  shows "map_of (user_rooms (fst (handle_leave c d s))) c = None \<and>
         (\<forall>c'. c' \<noteq> c \<longrightarrow>
            map_of (user_rooms (fst (handle_leave c d s))) c' = map_of (user_rooms s) c')"
  using assms
  by (simp add: handle_leave_valid leave_valid_def leave_room_def Let_def user_rooms_remove
      delete_conv')

theorem leave_clears_session_witness:
  "map_of (req ''X'' ''Y'') ''userId'' = Some ''X'' \<and> ''X'' \<noteq> [] \<and>
   map_of (req ''X'' ''Y'') ''roomId'' = Some ''Y'' \<and> ''Y'' \<noteq> [] \<and>
   map_of (user_rooms (run [Join ''c1'' (req ''U'' ''R'')] init)) ''c1'' =
     Some \<lparr>userId = ''U'', roomId = ''R''\<rparr> \<and>
   fst (handle_leave ''c1'' (req ''X'' ''Y'') (run [Join ''c1'' (req ''U'' ''R'')] init)) =
     \<lparr>rooms = [(''R'', [(''U'', ''c1'')])], user_rooms = [], sio_rooms = [(''R'', ''c1'')]\<rparr>"
  using leave_clears_session [of "req ''X'' ''Y''" "''X''" "''Y''" "''c1''"
      "run [Join ''c1'' (req ''U'' ''R'')] init"]
  by (simp add: handler_defs)

text \<open>
  C8. The claim: the \<^verbatim>\<open>joined\<close> reply lists the members of room \<open>r\<close>, and
  \<^verbatim>\<open>user-joined\<close> is broadcast to all other members of \<open>r\<close>. The list is read from the
  room mapping, the broadcast goes to the connections subscribed to room \<open>r\<close>, and the two
  can differ: after c1 has joined R as U and sent a leave naming user X and room R, room R
  still maps U to c1 but c1 is no longer subscribed. A join of c2 as V is then told that
  the users are U and V, while c1 receives no \<^verbatim>\<open>user-joined\<close>.
\<close>

theorem join_reply_counterexample:
  "snd (handle_join ''c2'' (req ''V'' ''R'')
       (run [Join ''c1'' (req ''U'' ''R''), Leave ''c1'' (req ''X'' ''R'')] init)) =
     [Emit ''c2'' (Joined ''V'' ''R'' [''U'', ''V'']),
      Emit_room ''R'' (Some ''c2'') (User_joined ''V'' ''R'')] \<and>
   members (fst (handle_join ''c2'' (req ''V'' ''R'')
       (run [Join ''c1'' (req ''U'' ''R''), Leave ''c1'' (req ''X'' ''R'')] init))) ''R'' =
     [(''U'', ''c1''), (''V'', ''c2'')] \<and>
   received (fst (handle_join ''c2'' (req ''V'' ''R'')
       (run [Join ''c1'' (req ''U'' ''R''), Leave ''c1'' (req ''X'' ''R'')] init)))
     (snd (handle_join ''c2'' (req ''V'' ''R'')
       (run [Join ''c1'' (req ''U'' ''R''), Leave ''c1'' (req ''X'' ''R'')] init))) ''c1'' = []"
  by (simp add: handler_defs received_def subscribers_def)

text \<open>
  C8, as amended: a join of connection \<open>c\<close> with non-empty userId \<open>u\<close> and roomId \<open>r\<close>
  emits two events. The first is \<^verbatim>\<open>joined\<close>, to \<open>c\<close>, with the userIds of room \<open>r\<close> as
  they are after the join: those of before, in their order, with \<open>u\<close> appended unless it
  was there; \<open>u\<close> is in the list and the room maps it to \<open>c\<close>. The second is
  \<^verbatim>\<open>user-joined\<close> with \<open>u\<close> and \<open>r\<close>, to room \<open>r\<close> with \<open>c\<close> skipped: it reaches the
  connections subscribed to \<open>r\<close> other than \<open>c\<close>; in a state reached from the empty one
  these include every other connection whose session records room \<open>r\<close>.
\<close>

theorem join_reply:
  assumes "map_of d ''userId'' = Some u" "u \<noteq> []" "map_of d ''roomId'' = Some r" "r \<noteq> []"
  shows "(let s' = fst (handle_join c d s); users = map fst (members s' r) in
          snd (handle_join c d s) =
            [Emit c (Joined u r users), Emit_room r (Some c) (User_joined u r)] \<and>
          users = (if u \<in> set (map fst (members s r)) then map fst (members s r)
                   else map fst (members s r) @ [u]) \<and>
          u \<in> set users \<and>
          map_of (members s' r) u = Some c \<and>
          set (recipients s' (Emit_room r (Some c) (User_joined u r))) =
            set (subscribers s' r) - {c} \<and>
          (s = run ops init \<longrightarrow>
             (\<forall>c' u'. c' \<noteq> c \<and>
                 map_of (user_rooms s') c' = Some \<lparr>userId = u', roomId = r\<rparr> \<longrightarrow>
                 c' \<in> set (recipients s' (Emit_room r (Some c) (User_joined u r))))))"
proof -
  have sub: "s = run ops init \<Longrightarrow> subscribed (fst (join_valid c u r s))"
    by (simp add: subscribed_join subscribed_run)
  show ?thesis
    using assms sub
    by (auto simp: handle_join_valid snd_join_valid members_join_valid update_keys
        update_conv' dom_update Let_def dest: subscribed_member)
qed

theorem join_reply_witness:
  "map_of (req ''B'' ''R'') ''userId'' = Some ''B'' \<and> ''B'' \<noteq> [] \<and>
   map_of (req ''B'' ''R'') ''roomId'' = Some ''R'' \<and> ''R'' \<noteq> [] \<and>
   snd (handle_join ''c2'' (req ''B'' ''R'') (run [Join ''c1'' (req ''A'' ''R'')] init)) =
     [Emit ''c2'' (Joined ''B'' ''R'' [''A'', ''B'']),
      Emit_room ''R'' (Some ''c2'') (User_joined ''B'' ''R'')] \<and>
   recipients (fst (handle_join ''c2'' (req ''B'' ''R'') (run [Join ''c1'' (req ''A'' ''R'')] init)))
     (Emit_room ''R'' (Some ''c2'') (User_joined ''B'' ''R'')) = [''c1'']"
  using join_reply [of "req ''B'' ''R''" "''B''" "''R''" "''c2''"
      "run [Join ''c1'' (req ''A'' ''R'')] init" "[Join ''c1'' (req ''A'' ''R'')]"]
  by (simp add: handler_defs subscribers_def)

text \<open>
  C9. The claim: a relay into room \<open>r\<close> is delivered to every member connection of \<open>r\<close>
  except the sender. \<^verbatim>\<open>handle_message\<close> does not read the room mapping: the event goes
  to the connections subscribed to room \<open>r\<close>. After c1 has joined R as U and sent a leave
  naming user X and room R, room R still maps U to c1 but c1 is no longer subscribed, and
  a relay of c2 into R does not reach c1.
\<close>

theorem relay_fan_out_counterexample:
  "members (run [Join ''c1'' (req ''U'' ''R''), Leave ''c1'' (req ''X'' ''R'')] init) ''R'' =
     [(''U'', ''c1'')] \<and>
   handle_message ''c2'' [(''roomId'', ''R''), (''sdp'', ''offer'')]
       (run [Join ''c1'' (req ''U'' ''R''), Leave ''c1'' (req ''X'' ''R'')] init) =
     (run [Join ''c1'' (req ''U'' ''R''), Leave ''c1'' (req ''X'' ''R'')] init,
      [Emit_room ''R'' (Some ''c2'') (Message [(''roomId'', ''R''), (''sdp'', ''offer'')])]) \<and>
   received (run [Join ''c1'' (req ''U'' ''R''), Leave ''c1'' (req ''X'' ''R'')] init)
     (snd (handle_message ''c2'' [(''roomId'', ''R''), (''sdp'', ''offer'')]
       (run [Join ''c1'' (req ''U'' ''R''), Leave ''c1'' (req ''X'' ''R'')] init))) ''c1'' = []"
  by (simp add: handler_defs received_def subscribers_def)

text \<open>
  C9, as amended: a message event of connection \<open>c\<close> whose data \<open>d\<close> names a non-empty
  roomId \<open>r\<close> emits one event: \<open>d\<close> itself, to room \<open>r\<close> with \<open>c\<close> skipped. Nothing is
  asked of \<open>c\<close>: whether or not it ever joined \<open>r\<close>, the event goes out and the state is
  the one given. It reaches the connections subscribed to \<open>r\<close> other than \<open>c\<close>; in a state
  reached from the empty one these include every other connection whose session records
  room \<open>r\<close>.
\<close>

theorem relay_fan_out:
  assumes "map_of d ''roomId'' = Some r" "r \<noteq> []"
  shows "handle_message c d s = (s, [Emit_room r (Some c) (Message d)]) \<and>
         set (recipients s (Emit_room r (Some c) (Message d))) = set (subscribers s r) - {c} \<and>
         (s = run ops init \<longrightarrow>
            (\<forall>c' u. c' \<noteq> c \<and> map_of (user_rooms s) c' = Some \<lparr>userId = u, roomId = r\<rparr> \<longrightarrow>
               c' \<in> set (recipients s (Emit_room r (Some c) (Message d)))))"
  using assms subscribed_run [of ops]
  by (auto simp: handle_message_def dest: subscribed_member)

theorem relay_fan_out_witness:
  "map_of [(''roomId'', ''R''), (''sdp'', ''offer'')] ''roomId'' = Some ''R'' \<and> ''R'' \<noteq> [] \<and>
   handle_message ''c9'' [(''roomId'', ''R''), (''sdp'', ''offer'')]
       (run [Join ''c1'' (req ''A'' ''R''), Join ''c2'' (req ''B'' ''R'')] init) =
     (run [Join ''c1'' (req ''A'' ''R''), Join ''c2'' (req ''B'' ''R'')] init,
      [Emit_room ''R'' (Some ''c9'') (Message [(''roomId'', ''R''), (''sdp'', ''offer'')])]) \<and>
   set (recipients (run [Join ''c1'' (req ''A'' ''R''), Join ''c2'' (req ''B'' ''R'')] init)
     (Emit_room ''R'' (Some ''c9'') (Message [(''roomId'', ''R''), (''sdp'', ''offer'')]))) =
     {''c1'', ''c2''}"
  using relay_fan_out [of "[(''roomId'', ''R''), (''sdp'', ''offer'')]" "''R''" "''c9''"
      "run [Join ''c1'' (req ''A'' ''R''), Join ''c2'' (req ''B'' ''R'')] init"
      "[Join ''c1'' (req ''A'' ''R''), Join ''c2'' (req ''B'' ''R'')]"]
  by (auto simp: handler_defs subscribers_def)

text \<open>
  C10. A message event whose data has no roomId, or an empty one, emits nothing, not even
  an error to the sender, and returns the state it was given.
\<close>

theorem message_without_room:
  assumes "py_not (map_of d ''roomId'')"
  shows "handle_message c d s = (s, [])"
  using assms by (auto simp: handle_message_def py_not_def split: option.splits)

theorem message_without_room_witness:
  "py_not (map_of [(''sdp'', ''offer'')] ''roomId'') \<and>
   py_not (map_of [(''roomId'', ''''), (''sdp'', ''offer'')] ''roomId'') \<and>
   handle_message ''c1'' [(''sdp'', ''offer'')] init = (init, []) \<and>
   handle_message ''c1'' [(''roomId'', ''''), (''sdp'', ''offer'')] init = (init, [])"
  using message_without_room [of "[(''sdp'', ''offer'')]" "''c1''" init]
    message_without_room [of "[(''roomId'', ''''), (''sdp'', ''offer'')]" "''c1''" init]
  by (simp add: py_not_def)

end
